theory Spec2Isabelle
  imports Main "HOL-Library.Word"
begin

unbundle bit_operations_syntax

section \<open>Data model of \<^verbatim>\<open>_zopfli/_zopflimodule.c\<close>\<close>

text \<open>
  The module wraps two entry points of the zopfli library as Python objects:
  \<^verbatim>\<open>ZopfliCompressor\<close> (C struct \<^verbatim>\<open>Compressor\<close>) and \<^verbatim>\<open>ZopfliDeflater\<close>
  (C struct \<^verbatim>\<open>Deflater\<close>). Byte buffers are lists of 8-bit words, \<^verbatim>\<open>size_t\<close> is a
  64-bit word (LP64), a C \<^verbatim>\<open>int\<close> is an \<open>int\<close> between \<^verbatim>\<open>INT_MIN\<close> and \<^verbatim>\<open>INT_MAX\<close>.
\<close>

type_synonym byte = "8 word"
type_synonym bytes = "byte list"
type_synonym size_t = "64 word"

definition INT_MIN :: int where "INT_MIN = - 2147483648"
definition INT_MAX :: int where "INT_MAX = 2147483647"

text \<open>The fields of \<^verbatim>\<open>ZopfliOptions\<close> that the module reads or writes.\<close>

record ZopfliOptions =
  verbose :: int
  numiterations :: int
  blocksplitting :: int
  blocksplittinglast :: int
  blocksplittingmax :: int

text \<open>
  Python exceptions. The three \<^verbatim>\<open>ValueError\<close>s the module raises itself carry their
  message; the others are raised by the host interpreter.
\<close>

datatype pyerr =
    ValueError string
  | TypeError
  | OverflowError
  | SystemError
  | MemoryError
  | ImportError

text \<open>
  A Python object handed to \<^verbatim>\<open>compress\<close>: either it exports a contiguous buffer
  (\<^verbatim>\<open>bytes\<close>, \<^verbatim>\<open>bytearray\<close>, ...) or it does not (\<^verbatim>\<open>str\<close>, \<^verbatim>\<open>int\<close>, ...).
\<close>

datatype pyobj = PyBytes bytes | PyOther

text \<open>The outcome of the truth test of the \<^verbatim>\<open>verbose\<close> argument.\<close>

datatype truth = Truthy | Falsy | TruthRaises pyerr

fun PyObject_IsTrue :: "truth \<Rightarrow> int" where
  "PyObject_IsTrue Truthy = 1"
| "PyObject_IsTrue Falsy = 0"
| "PyObject_IsTrue (TruthRaises e) = - 1"

fun truth_error :: "truth \<Rightarrow> pyerr" where
  "truth_error (TruthRaises e) = e"
| "truth_error t = SystemError"

text \<open>
  The host interpreter calls that can fail for reasons outside the module (no memory,
  import failure). Each field is the exception that call raises, or \<open>None\<close> when it
  succeeds.
\<close>

record host =
  host_import :: "pyerr option"     \<comment> \<open>\<^verbatim>\<open>PyImport_ImportModule("io")\<close>\<close>
  host_call :: "pyerr option"       \<comment> \<open>\<^verbatim>\<open>PyObject_CallMethod\<close> on the \<^verbatim>\<open>BytesIO\<close>\<close>
  host_getbuffer :: "pyerr option"  \<comment> \<open>\<^verbatim>\<open>PyObject_GetBuffer\<close> on a buffer exporter\<close>
  host_alloc :: "pyerr option"      \<comment> \<open>\<^verbatim>\<open>PyBytes_FromStringAndSize\<close>\<close>
  host_lock :: "pyerr option"       \<comment> \<open>\<^verbatim>\<open>ALLOCATE_LOCK\<close>\<close>

definition host_ok :: host where
  "host_ok = \<lparr>host_import = None, host_call = None, host_getbuffer = None,
              host_alloc = None, host_lock = None\<rparr>"

text \<open>
  The zopfli library (\<^verbatim>\<open>zopfli/zopfli.h\<close>, \<^verbatim>\<open>zopfli/deflate.h\<close>) is not part of the
  module: its format constants, the defaults \<^verbatim>\<open>ZopfliInitOptions\<close> stores and its two
  encoders are parameters of every definition below. \<^verbatim>\<open>ZopfliCompress\<close> starts from an
  empty output and returns it; \<^verbatim>\<open>ZopfliDeflatePart\<close> receives the bit pointer and the
  output buffer and returns both updated. The pair \<^verbatim>\<open>(out, outsize)\<close> of the C code is
  the list \<open>out\<close>, \<^verbatim>\<open>outsize\<close> being its length.
\<close>

record zopfli =
  ZOPFLI_FORMAT_GZIP :: int
  ZOPFLI_FORMAT_ZLIB :: int
  ZOPFLI_FORMAT_DEFLATE :: int
  ZopfliInitOptions :: ZopfliOptions
  ZopfliCompress :: "ZopfliOptions \<Rightarrow> int \<Rightarrow> bytes \<Rightarrow> bytes"
  ZopfliDeflatePart ::
    "ZopfliOptions \<Rightarrow> int \<Rightarrow> int \<Rightarrow> bytes \<Rightarrow> nat \<Rightarrow> nat \<Rightarrow> byte \<times> bytes \<Rightarrow> byte \<times> bytes"

subsection \<open>Error propagation\<close>

text \<open>
  A failing step ends the C function (\<^verbatim>\<open>return -1\<close>, \<^verbatim>\<open>goto out\<close>); \<open>bindE\<close> passes
  the value of a step that succeeded on, \<open>raising\<close> continues when a host call raised
  nothing.
\<close>

fun bindE :: "'e + 'a \<Rightarrow> ('a \<Rightarrow> 'e + 'b) \<Rightarrow> 'e + 'b" where
  "bindE (Inl e) f = Inl e"
| "bindE (Inr x) f = f x"

fun raising :: "pyerr option \<Rightarrow> pyerr + 'a \<Rightarrow> pyerr + 'a" where
  "raising (Some e) k = Inl e"
| "raising None k = k"

subsection \<open>Argument parsing\<close>

text \<open>
  \<^verbatim>\<open>PyArg_ParseTupleAndKeywords\<close> with the \<^verbatim>\<open>i\<close> format: an argument that is not given
  leaves the C variable as it is, a Python integer outside the range of a C \<^verbatim>\<open>int\<close>
  raises \<^verbatim>\<open>OverflowError\<close>. Arguments that are not integers are excluded by the type.
\<close>

definition c_int :: "int \<Rightarrow> bool" where
  "c_int v \<longleftrightarrow> INT_MIN \<le> v \<and> v \<le> INT_MAX"

fun parse_i :: "int \<Rightarrow> int option \<Rightarrow> pyerr + int" where
  "parse_i cur None = Inr cur"
| "parse_i cur (Some v) = (if c_int v then Inr v else Inl OverflowError)"

fun arg_ok :: "int option \<Rightarrow> bool" where
  "arg_ok None = True"
| "arg_ok (Some v) = c_int v"

fun parse_O :: "truth \<Rightarrow> truth option \<Rightarrow> truth" where
  "parse_O cur None = cur"
| "parse_O cur (Some t) = t"

section \<open>\<^verbatim>\<open>ZopfliCompressor\<close>\<close>

record Compressor =
  c_format :: int
  c_options :: ZopfliOptions
  c_data :: bytes      \<comment> \<open>the contents of the \<^verbatim>\<open>io.BytesIO\<close> object \<^verbatim>\<open>data\<close>\<close>
  c_flushed :: bool    \<comment> \<open>the C flag \<^verbatim>\<open>flushed\<close>, which only ever holds 0 or 1\<close>

record Compressor_args =
  ca_format :: "int option"
  ca_verbose :: "truth option"
  ca_iterations :: "int option"
  ca_block_splitting :: "int option"
  ca_block_splitting_max :: "int option"

text \<open>
  \<^verbatim>\<open>Compressor_init\<close>, in the order of the source: defaults, argument parsing, the
  format switch, the truth test of \<^verbatim>\<open>verbose\<close>, the range check of
  \<^verbatim>\<open>blocksplitting\<close>, the \<^verbatim>\<open>BytesIO\<close> object, the lock. \<open>Inl\<close> is \<^verbatim>\<open>return -1\<close> with
  the exception set; the type call then releases the object.
\<close>

definition Compressor_parse ::
  "zopfli \<Rightarrow> Compressor_args \<Rightarrow> pyerr + (int \<times> truth \<times> ZopfliOptions)" where
  "Compressor_parse Z a =
     (let opts = ZopfliInitOptions Z in
      bindE (parse_i (ZOPFLI_FORMAT_DEFLATE Z) (ca_format a)) (\<lambda>fmt.
      bindE (parse_i (numiterations opts) (ca_iterations a)) (\<lambda>it.
      bindE (parse_i (blocksplitting opts) (ca_block_splitting a)) (\<lambda>bs.
      bindE (parse_i (blocksplittingmax opts) (ca_block_splitting_max a)) (\<lambda>bsmax.
        Inr (fmt, parse_O Falsy (ca_verbose a),
             opts\<lparr>numiterations := it, blocksplitting := bs,
                  blocksplittingmax := bsmax\<rparr>))))))"

definition Compressor_init :: "zopfli \<Rightarrow> host \<Rightarrow> Compressor_args \<Rightarrow> pyerr + Compressor" where
  "Compressor_init Z h a =
     bindE (Compressor_parse Z a) (\<lambda>(fmt, vb, opts).
       if \<not> (fmt = ZOPFLI_FORMAT_GZIP Z \<or> fmt = ZOPFLI_FORMAT_ZLIB Z
               \<or> fmt = ZOPFLI_FORMAT_DEFLATE Z)
       then Inl (ValueError ''unknown format'')
       else let opts1 = opts\<lparr>verbose := PyObject_IsTrue vb\<rparr> in
         if verbose opts1 < 0 then Inl (truth_error vb)
         else let opts2 = (if blocksplitting opts1 < 0 \<or> 3 < blocksplitting opts1
                           then opts1\<lparr>blocksplitting := 1\<rparr> else opts1) in
           raising (host_import h) (
           raising (host_call h) (
           raising (host_lock h) (
             Inr \<lparr>c_format = fmt, c_options = opts2, c_data = [], c_flushed = False\<rparr>))))"

section \<open>\<^verbatim>\<open>ZopfliDeflater\<close>\<close>

record Deflater =
  d_options :: ZopfliOptions
  d_bp :: byte
  d_out :: bytes
  d_data :: "pyobj option"   \<comment> \<open>the pending chunk; \<open>None\<close> is the C \<^verbatim>\<open>NULL\<close>\<close>
  d_flushed :: bool

record Deflater_args =
  da_verbose :: "truth option"
  da_iterations :: "int option"
  da_block_splitting :: "int option"
  da_block_splitting_max :: "int option"

definition Deflater_parse :: "zopfli \<Rightarrow> Deflater_args \<Rightarrow> pyerr + (truth \<times> ZopfliOptions)" where
  "Deflater_parse Z a =
     (let opts = ZopfliInitOptions Z in
      bindE (parse_i (numiterations opts) (da_iterations a)) (\<lambda>it.
      bindE (parse_i (blocksplitting opts) (da_block_splitting a)) (\<lambda>bs.
      bindE (parse_i (blocksplittingmax opts) (da_block_splitting_max a)) (\<lambda>bsmax.
        Inr (parse_O Falsy (da_verbose a),
             opts\<lparr>numiterations := it, blocksplitting := bs,
                  blocksplittingmax := bsmax\<rparr>)))))"

text \<open>
  \<^verbatim>\<open>Deflater_init\<close>: the only treatment of \<^verbatim>\<open>blocksplitting\<close> is the test for the
  value 2.
\<close>

definition Deflater_init :: "zopfli \<Rightarrow> host \<Rightarrow> Deflater_args \<Rightarrow> pyerr + Deflater" where
  "Deflater_init Z h a =
     bindE (Deflater_parse Z a) (\<lambda>(vb, opts).
       let opts1 = opts\<lparr>verbose := PyObject_IsTrue vb\<rparr> in
       if verbose opts1 < 0 then Inl (truth_error vb)
       else let opts2 = (if blocksplitting opts1 = 2
                         then opts1\<lparr>blocksplitting := 1, blocksplittinglast := 1\<rparr>
                         else opts1) in
         raising (host_lock h) (
           Inr \<lparr>d_options = opts2, d_bp = 0, d_out = [], d_data = None, d_flushed = False\<rparr>))"

section \<open>The methods of \<^verbatim>\<open>ZopfliCompressor\<close>\<close>

text \<open>
  \<^verbatim>\<open>PyBytes_FromStringAndSize(str, n)\<close>: its size parameter is a \<^verbatim>\<open>Py_ssize_t\<close>, so a
  \<^verbatim>\<open>size_t\<close> with the top bit set arrives negative and raises \<^verbatim>\<open>SystemError\<close>.
  \<open>str\<close> is the memory from the pointer on; the C code reads exactly \<open>n\<close> bytes of it.
\<close>

definition outsize_of :: "bytes \<Rightarrow> size_t" where
  "outsize_of buf = of_nat (length buf)"

definition PyBytes_FromStringAndSize :: "host \<Rightarrow> bytes \<Rightarrow> size_t \<Rightarrow> pyerr + bytes" where
  "PyBytes_FromStringAndSize h str n =
     (if sint n < 0 then Inl SystemError
      else raising (host_alloc h) (Inr (take (unat n) str)))"

text \<open>
  \<^verbatim>\<open>BytesIO.write\<close>: the stream position is always at the end, so a write appends;
  an object without a buffer raises \<^verbatim>\<open>TypeError\<close>.
\<close>

fun BytesIO_write :: "host \<Rightarrow> bytes \<Rightarrow> pyobj \<Rightarrow> pyerr + bytes" where
  "BytesIO_write h buf PyOther = Inl TypeError"
| "BytesIO_write h buf (PyBytes b) = raising (host_call h) (Inr (buf @ b))"

text \<open>
  Each method returns what the caller receives (\<open>Inl\<close>: \<^verbatim>\<open>NULL\<close> with the exception
  set) and the object after the call. \<^verbatim>\<open>PyBytes_FromString("")\<close> returns the
  interpreter's shared empty bytes object and is taken not to fail.
\<close>

definition Compressor_compress ::
  "host \<Rightarrow> Compressor \<Rightarrow> pyobj \<Rightarrow> (pyerr + bytes) \<times> Compressor" where
  "Compressor_compress h s obj =
     (if c_flushed s then (Inl (ValueError ''Compressor has been flushed''), s)
      else (case BytesIO_write h (c_data s) obj of
              Inl e \<Rightarrow> (Inl e, s)
            | Inr buf \<Rightarrow> (Inr [], s\<lparr>c_data := buf\<rparr>)))"

text \<open>
  \<^verbatim>\<open>Compressor_flush\<close> also reports the invocations of \<^verbatim>\<open>ZopfliCompress\<close> it made, in
  order, each with its options, format and input. Every path goes through the label
  \<^verbatim>\<open>out\<close>, which sets \<^verbatim>\<open>flushed\<close>.
\<close>

type_synonym zcall = "ZopfliOptions \<times> int \<times> bytes"

definition Compressor_flush ::
  "zopfli \<Rightarrow> host \<Rightarrow> Compressor \<Rightarrow> (pyerr + bytes) \<times> zcall list \<times> Compressor" where
  "Compressor_flush Z h s =
     (if c_flushed s
      then (Inl (ValueError ''repeated call to flush()''), [], s\<lparr>c_flushed := True\<rparr>)
      else (case host_call h of
        Some e \<Rightarrow> (Inl e, [], s\<lparr>c_flushed := True\<rparr>)
      | None \<Rightarrow> (case host_getbuffer h of
          Some e \<Rightarrow> (Inl e, [], s\<lparr>c_flushed := True\<rparr>)
        | None \<Rightarrow>
           (let inp = c_data s in
            if blocksplitting (c_options s) = 3 then
              (let o1 = (c_options s)\<lparr>blocksplitting := 1, blocksplittinglast := 0\<rparr>;
                   out = ZopfliCompress Z o1 (c_format s) inp;
                   o2 = o1\<lparr>blocksplittinglast := 1\<rparr>;
                   out2 = ZopfliCompress Z o2 (c_format s) inp;
                   res = (if outsize_of out < outsize_of out2 then out else out2)
               in (PyBytes_FromStringAndSize h res (outsize_of res),
                   [(o1, c_format s, inp), (o2, c_format s, inp)],
                   s\<lparr>c_options := o2, c_flushed := True\<rparr>))
            else
              (let out = ZopfliCompress Z (c_options s) (c_format s) inp
               in (PyBytes_FromStringAndSize h out (outsize_of out),
                   [(c_options s, c_format s, inp)],
                   s\<lparr>c_flushed := True\<rparr>))))))"

section \<open>The methods of \<^verbatim>\<open>ZopfliDeflater\<close>\<close>

fun PyObject_GetBuffer :: "host \<Rightarrow> pyobj \<Rightarrow> pyerr + bytes" where
  "PyObject_GetBuffer h PyOther = Inl TypeError"
| "PyObject_GetBuffer h (PyBytes b) = raising (host_getbuffer h) (Inr b)"

text \<open>
  \<^verbatim>\<open>deflate_part\<close>: \<open>pos\<close>, \<open>off\<close> and \<open>n\<close> are \<^verbatim>\<open>size_t\<close> and wrap around. The label
  \<^verbatim>\<open>out\<close> clears the pending chunk on every path that got past the \<^verbatim>\<open>NULL\<close> test.
\<close>

definition deflate_part ::
  "zopfli \<Rightarrow> host \<Rightarrow> Deflater \<Rightarrow> int \<Rightarrow> (pyerr + bytes) \<times> Deflater" where
  "deflate_part Z h s final =
     (case d_data s of
        None \<Rightarrow> (Inr [], s)
      | Some obj \<Rightarrow>
         (case PyObject_GetBuffer h obj of
            Inl e \<Rightarrow> (Inl e, s\<lparr>d_data := None\<rparr>)
          | Inr inp \<Rightarrow>
             (let pos = outsize_of (d_out s);
                  (bp', out') = ZopfliDeflatePart Z (d_options s) 2 final inp 0 (length inp)
                                  (d_bp s, d_out s);
                  outsize = outsize_of out';
                  (off, n) =
                    (if final = 0 then
                       (if pos = 0 then (pos, outsize - 1) else (pos - 1, outsize - pos))
                     else
                       (if pos = 0 then (pos, outsize) else (pos - 1, outsize - pos + 1)))
              in (PyBytes_FromStringAndSize h (drop (unat off) out') n,
                  s\<lparr>d_bp := bp', d_out := out', d_data := None\<rparr>))))"

definition Deflater_compress ::
  "zopfli \<Rightarrow> host \<Rightarrow> Deflater \<Rightarrow> pyobj \<Rightarrow> (pyerr + bytes) \<times> Deflater" where
  "Deflater_compress Z h s obj =
     (if d_flushed s then (Inl (ValueError ''Deflater has been flushed''), s)
      else (case deflate_part Z h s 0 of
              (Inl e, s') \<Rightarrow> (Inl e, s')
            | (Inr v, s') \<Rightarrow> (Inr v, s'\<lparr>d_data := Some obj\<rparr>)))"

definition Deflater_flush :: "zopfli \<Rightarrow> host \<Rightarrow> Deflater \<Rightarrow> (pyerr + bytes) \<times> Deflater" where
  "Deflater_flush Z h s =
     (if d_flushed s then (Inl (ValueError ''repeated call to flush()''), s)
      else deflate_part Z h (s\<lparr>d_flushed := True\<rparr>) 1)"

section \<open>Sessions\<close>

text \<open>
  A session of the deflater: the chunks are appended in order, each as a \<^verbatim>\<open>bytes\<close>
  object, then \<^verbatim>\<open>flush\<close> is called once. The result is the list of the byte strings
  the calls returned, in call order; the first exception ends the session.
\<close>

fun Deflater_appends ::
  "zopfli \<Rightarrow> host \<Rightarrow> Deflater \<Rightarrow> bytes list \<Rightarrow> pyerr + (bytes list \<times> Deflater)" where
  "Deflater_appends Z h s [] = Inr ([], s)"
| "Deflater_appends Z h s (c # cs) =
     (case Deflater_compress Z h s (PyBytes c) of
        (Inl e, s') \<Rightarrow> Inl e
      | (Inr v, s') \<Rightarrow>
          bindE (Deflater_appends Z h s' cs) (\<lambda>(vs, s''). Inr (v # vs, s'')))"

definition Deflater_session ::
  "zopfli \<Rightarrow> host \<Rightarrow> Deflater \<Rightarrow> bytes list \<Rightarrow> pyerr + bytes list" where
  "Deflater_session Z h s cs =
     bindE (Deflater_appends Z h s cs) (\<lambda>(vs, s').
       case Deflater_flush Z h s' of
         (Inl e, s'') \<Rightarrow> Inl e
       | (Inr v, s'') \<Rightarrow> Inr (vs @ [v]))"

text \<open>
  Arbitrary call sequences, for the behaviour after \<^verbatim>\<open>flush\<close>: each call comes with
  the host outcomes it meets, and the results of all calls are collected.
\<close>

datatype call = Append pyobj | Finalize

fun Compressor_call ::
  "zopfli \<Rightarrow> Compressor \<Rightarrow> host \<times> call \<Rightarrow> (pyerr + bytes) \<times> Compressor" where
  "Compressor_call Z s (h, Append obj) = Compressor_compress h s obj"
| "Compressor_call Z s (h, Finalize) =
     (case Compressor_flush Z h s of (r, calls, s') \<Rightarrow> (r, s'))"

fun Compressor_calls ::
  "zopfli \<Rightarrow> Compressor \<Rightarrow> (host \<times> call) list \<Rightarrow> (pyerr + bytes) list \<times> Compressor" where
  "Compressor_calls Z s [] = ([], s)"
| "Compressor_calls Z s (c # cs) =
     (case Compressor_call Z s c of (r, s') \<Rightarrow>
        (case Compressor_calls Z s' cs of (rs, s'') \<Rightarrow> (r # rs, s'')))"

fun Deflater_call ::
  "zopfli \<Rightarrow> Deflater \<Rightarrow> host \<times> call \<Rightarrow> (pyerr + bytes) \<times> Deflater" where
  "Deflater_call Z s (h, Append obj) = Deflater_compress Z h s obj"
| "Deflater_call Z s (h, Finalize) = Deflater_flush Z h s"

fun Deflater_calls ::
  "zopfli \<Rightarrow> Deflater \<Rightarrow> (host \<times> call) list \<Rightarrow> (pyerr + bytes) list \<times> Deflater" where
  "Deflater_calls Z s [] = ([], s)"
| "Deflater_calls Z s (c # cs) =
     (case Deflater_call Z s c of (r, s') \<Rightarrow>
        (case Deflater_calls Z s' cs of (rs, s'') \<Rightarrow> (r # rs, s'')))"

text \<open>The error each kind of call meets on a flushed object.\<close>

fun Compressor_flushed_error :: "call \<Rightarrow> pyerr" where
  "Compressor_flushed_error (Append obj) = ValueError ''Compressor has been flushed''"
| "Compressor_flushed_error Finalize = ValueError ''repeated call to flush()''"

fun Deflater_flushed_error :: "call \<Rightarrow> pyerr" where
  "Deflater_flushed_error (Append obj) = ValueError ''Deflater has been flushed''"
| "Deflater_flushed_error Finalize = ValueError ''repeated call to flush()''"

section \<open>What the module needs from \<^verbatim>\<open>ZopfliDeflatePart\<close>\<close>

text \<open>
  The bit stream that the encoder writes for a list of chunks: one part per chunk, the
  last one final, each continuing at the bit pointer the previous one left.
\<close>

fun deflate_parts ::
  "zopfli \<Rightarrow> ZopfliOptions \<Rightarrow> bytes list \<Rightarrow> byte \<times> bytes \<Rightarrow> byte \<times> bytes" where
  "deflate_parts Z opts [] st = st"
| "deflate_parts Z opts [c] st = ZopfliDeflatePart Z opts 2 1 c 0 (length c) st"
| "deflate_parts Z opts (c # cs) st =
     deflate_parts Z opts cs (ZopfliDeflatePart Z opts 2 0 c 0 (length c) st)"

text \<open>
  The encoder writes bits at the bit pointer: it leaves every byte but the last in
  place, never shortens the buffer, and writes at least one bit, so its output is not
  empty.
\<close>

definition appends_only :: "zopfli \<Rightarrow> bool" where
  "appends_only Z \<longleftrightarrow>
     (\<forall>opts btype final inp a b bp out.
        let out' = snd (ZopfliDeflatePart Z opts btype final inp a b (bp, out))
        in length out \<le> length out' \<and> out' \<noteq> []
           \<and> take (length out - 1) out' = butlast out)"

text \<open>A slice \<open>buffer[i .. j)\<close>.\<close>

definition bytes_slice :: "nat \<Rightarrow> nat \<Rightarrow> 'a list \<Rightarrow> 'a list" where
  "bytes_slice i j xs = take (j - i) (drop i xs)"

text \<open>
  Arguments with which construction gets past parsing and the truth test: every integer
  argument given is a C \<^verbatim>\<open>int\<close> and the truth test of \<^verbatim>\<open>verbose\<close> does not raise.
\<close>

definition Compressor_args_ok :: "Compressor_args \<Rightarrow> bool" where
  "Compressor_args_ok a \<longleftrightarrow>
     arg_ok (ca_format a) \<and> arg_ok (ca_iterations a) \<and> arg_ok (ca_block_splitting a)
     \<and> arg_ok (ca_block_splitting_max a)
     \<and> 0 \<le> PyObject_IsTrue (parse_O Falsy (ca_verbose a))"

definition Deflater_args_ok :: "Deflater_args \<Rightarrow> bool" where
  "Deflater_args_ok a \<longleftrightarrow>
     arg_ok (da_iterations a) \<and> arg_ok (da_block_splitting a)
     \<and> arg_ok (da_block_splitting_max a)
     \<and> 0 \<le> PyObject_IsTrue (parse_O Falsy (da_verbose a))"

text \<open>
  What a call of the deflater hands to the encoder: the bytes of the pending chunk, when
  there is one and its buffer can be obtained; and the object after the encoder has
  run on them, the pending chunk released.
\<close>

definition pending_bytes :: "host \<Rightarrow> Deflater \<Rightarrow> bytes option" where
  "pending_bytes h d =
     (case d_data d of
        None \<Rightarrow> None
      | Some obj \<Rightarrow> (case PyObject_GetBuffer h obj of Inl e \<Rightarrow> None | Inr inp \<Rightarrow> Some inp))"

definition encoded :: "zopfli \<Rightarrow> Deflater \<Rightarrow> int \<Rightarrow> bytes \<Rightarrow> Deflater" where
  "encoded Z d final inp =
     (case ZopfliDeflatePart Z (d_options d) 2 final inp 0 (length inp) (d_bp d, d_out d) of
        (bp', out') \<Rightarrow> d\<lparr>d_bp := bp', d_out := out', d_data := None\<rparr>)"

section \<open>A sample encoder: stored blocks\<close>

text \<open>
  An instance of the library parameter for concrete evaluations. Its encoder writes
  stored blocks (RFC 1951, section 3.2.4): the three header bits at the bit pointer,
  padding to the byte boundary, \<^verbatim>\<open>LEN\<close>, \<^verbatim>\<open>NLEN\<close> and the bytes themselves, at most
  65535 per block. \<open>inflate_stored\<close> decodes a stream of such blocks.
\<close>

definition stored_bit :: "byte \<Rightarrow> byte \<times> bytes \<Rightarrow> byte \<times> bytes" where
  "stored_bit b st =
     (case st of (bp, out) \<Rightarrow>
        let out1 = (if bp = 0 then out @ [0] else out)
        in ((bp + 1) AND 7,
            if out1 = [] then []
            else butlast out1 @ [last out1 OR push_bit (unat bp) b]))"

definition stored_block :: "bool \<Rightarrow> bytes \<Rightarrow> byte \<times> bytes \<Rightarrow> byte \<times> bytes" where
  "stored_block fin blk st =
     (let hdr = stored_bit 0 (stored_bit 0 (stored_bit (if fin then 1 else 0) st));
          blocksize = length blk;
          nlen = 65535 - blocksize
      in (0, snd hdr @ [of_nat (blocksize mod 256), of_nat (blocksize div 256 mod 256),
                        of_nat (nlen mod 256), of_nat (nlen div 256 mod 256)] @ blk))"

function stored_part :: "int \<Rightarrow> bytes \<Rightarrow> byte \<times> bytes \<Rightarrow> byte \<times> bytes" where
  "stored_part final inp st =
     (if length inp \<le> 65535 then stored_block (final \<noteq> 0) inp st
      else stored_part final (drop 65535 inp) (stored_block False (take 65535 inp) st))"
  by pat_completeness auto
termination
  by (relation "measure (\<lambda>(final, inp, st). length inp)") auto

fun inflate_stored :: "bytes \<Rightarrow> bytes option" where
  "inflate_stored (hdr # l0 # l1 # n0 # n1 # rest) =
     (let len = unat l0 + 256 * unat l1; nlen = unat n0 + 256 * unat n1 in
      if drop_bit 1 hdr AND 3 \<noteq> 0 \<or> len + nlen \<noteq> 65535 \<or> length rest < len then None
      else if bit hdr 0 then Some (take len rest)
      else map_option ((@) (take len rest)) (inflate_stored (drop len rest)))"
| "inflate_stored bs = None"

definition stored_zopfli :: zopfli where
  "stored_zopfli =
     \<lparr>ZOPFLI_FORMAT_GZIP = 0, ZOPFLI_FORMAT_ZLIB = 1, ZOPFLI_FORMAT_DEFLATE = 2,
      ZopfliInitOptions = \<lparr>verbose = 0, numiterations = 15, blocksplitting = 1,
                           blocksplittinglast = 0, blocksplittingmax = 15\<rparr>,
      ZopfliCompress = (\<lambda>opts fmt inp. snd (stored_part 1 inp (0, []))),
      ZopfliDeflatePart = (\<lambda>opts btype final inp a b st.
                             stored_part final (take (b - a) (drop a inp)) st)\<rparr>"

text \<open>
  A second instance whose \<^verbatim>\<open>ZopfliCompress\<close> marks its output with the
  \<^verbatim>\<open>blocksplittinglast\<close> option it was given, so that two runs of equal length can be
  told apart.
\<close>

definition marking_zopfli :: zopfli where
  "marking_zopfli =
     stored_zopfli\<lparr>ZopfliCompress := (\<lambda>opts fmt inp. of_int (blocksplittinglast opts) # inp)\<rparr>"

definition no_args :: Deflater_args where
  "no_args = \<lparr>da_verbose = None, da_iterations = None, da_block_splitting = None,
              da_block_splitting_max = None\<rparr>"

definition no_cargs :: Compressor_args where
  "no_cargs = \<lparr>ca_format = None, ca_verbose = None, ca_iterations = None,
               ca_block_splitting = None, ca_block_splitting_max = None\<rparr>"

text \<open>Concrete objects for the evaluations below.\<close>

definition fresh_deflater :: Deflater where
  "fresh_deflater =
     \<lparr>d_options = ZopfliInitOptions stored_zopfli, d_bp = 0, d_out = [], d_data = None,
      d_flushed = False\<rparr>"

definition flushed_deflater :: Deflater where
  "flushed_deflater = snd (Deflater_flush stored_zopfli host_ok fresh_deflater)"

definition flushed_compressor :: Compressor where
  "flushed_compressor =
     snd (snd (Compressor_flush stored_zopfli host_ok
       \<lparr>c_format = 2, c_options = ZopfliInitOptions stored_zopfli, c_data = [65],
        c_flushed = False\<rparr>))"

definition try_both_compressor :: Compressor where
  "try_both_compressor =
     \<lparr>c_format = 2, c_options = (ZopfliInitOptions stored_zopfli)\<lparr>blocksplitting := 3\<rparr>,
      c_data = [7], c_flushed = False\<rparr>"

definition no_memory :: host where
  "no_memory = host_ok\<lparr>host_alloc := Some MemoryError\<rparr>"

definition fresh_compressor :: Compressor where
  "fresh_compressor =
     \<lparr>c_format = 2, c_options = ZopfliInitOptions stored_zopfli, c_data = [65],
      c_flushed = False\<rparr>"

definition one_block_deflater :: Deflater where
  "one_block_deflater =
     \<lparr>d_options = ZopfliInitOptions stored_zopfli, d_bp = 0,
      d_out = [0, 1, 0, 254, 255, 65], d_data = Some (PyBytes [66]), d_flushed = False\<rparr>"

section \<open>Helper lemmas\<close>

lemma unat_size: "n < 2 ^ 64 \<Longrightarrow> unat (of_nat n :: size_t) = n"
  by (simp add: unat_of_nat)

lemma sint_size: "n < 2 ^ 63 \<Longrightarrow> sint (of_nat n :: size_t) = int n"
  by (simp add: signed_of_nat signed_take_bit_int_eq_self)

lemma size_eq_0:
  assumes "n < 2 ^ 64"
  shows "(of_nat n = (0 :: size_t)) = (n = 0)"
proof
  assume "of_nat n = (0 :: size_t)"
  then have "unat (of_nat n :: size_t) = 0" by simp
  with assms show "n = 0" by (simp add: unat_size)
next
  assume "n = 0"
  then show "of_nat n = (0 :: size_t)" by simp
qed

lemma size_less:
  "m < 2 ^ 64 \<Longrightarrow> n < 2 ^ 64 \<Longrightarrow> ((of_nat m :: size_t) < of_nat n) = (m < n)"
  by (simp add: word_less_nat_alt unat_size)

lemma PyBytes_ok:
  "n < 2 ^ 63 \<Longrightarrow> host_alloc h = None \<Longrightarrow>
   PyBytes_FromStringAndSize h str (of_nat n) = Inr (take n str)"
  by (simp add: PyBytes_FromStringAndSize_def sint_size unat_size)

lemma parse_i_ok:
  "arg_ok a \<Longrightarrow> parse_i cur a = Inr (case a of None \<Rightarrow> cur | Some v \<Rightarrow> v)"
  by (cases a) simp_all

lemma Deflater_init_ok:
  assumes "Deflater_args_ok a" and "host_lock h = None"
  shows "Deflater_init Z h a =
    Inr \<lparr>d_options =
           (let opts1 = (ZopfliInitOptions Z)
                  \<lparr>numiterations := (case da_iterations a of None \<Rightarrow> numiterations (ZopfliInitOptions Z) | Some v \<Rightarrow> v),
                   blocksplitting := (case da_block_splitting a of None \<Rightarrow> blocksplitting (ZopfliInitOptions Z) | Some v \<Rightarrow> v),
                   blocksplittingmax := (case da_block_splitting_max a of None \<Rightarrow> blocksplittingmax (ZopfliInitOptions Z) | Some v \<Rightarrow> v),
                   verbose := PyObject_IsTrue (parse_O Falsy (da_verbose a))\<rparr>
            in if blocksplitting opts1 = 2
               then opts1\<lparr>blocksplitting := 1, blocksplittinglast := 1\<rparr> else opts1),
         d_bp = 0, d_out = [], d_data = None, d_flushed = False\<rparr>"
  using assms
  by (simp add: Deflater_init_def Deflater_parse_def Deflater_args_ok_def parse_i_ok Let_def)

lemma Compressor_init_ok:
  assumes "Compressor_args_ok a" and "host_import h = None" and "host_call h = None"
    and "host_lock h = None"
    and "fmt = (case ca_format a of None \<Rightarrow> ZOPFLI_FORMAT_DEFLATE Z | Some v \<Rightarrow> v)"
    and "fmt = ZOPFLI_FORMAT_GZIP Z \<or> fmt = ZOPFLI_FORMAT_ZLIB Z \<or> fmt = ZOPFLI_FORMAT_DEFLATE Z"
  shows "Compressor_init Z h a =
    Inr \<lparr>c_format = fmt,
         c_options =
           (let opts1 = (ZopfliInitOptions Z)
                  \<lparr>numiterations := (case ca_iterations a of None \<Rightarrow> numiterations (ZopfliInitOptions Z) | Some v \<Rightarrow> v),
                   blocksplitting := (case ca_block_splitting a of None \<Rightarrow> blocksplitting (ZopfliInitOptions Z) | Some v \<Rightarrow> v),
                   blocksplittingmax := (case ca_block_splitting_max a of None \<Rightarrow> blocksplittingmax (ZopfliInitOptions Z) | Some v \<Rightarrow> v),
                   verbose := PyObject_IsTrue (parse_O Falsy (ca_verbose a))\<rparr>
            in if blocksplitting opts1 < 0 \<or> 3 < blocksplitting opts1
               then opts1\<lparr>blocksplitting := 1\<rparr> else opts1),
         c_data = [], c_flushed = False\<rparr>"
  using assms
  by (simp add: Compressor_init_def Compressor_parse_def Compressor_args_ok_def parse_i_ok Let_def)

lemma Compressor_call_flushed:
  "c_flushed s \<Longrightarrow> Compressor_call Z s (h, c) = (Inl (Compressor_flushed_error c), s)"
  by (cases s; cases c) (simp_all add: Compressor_compress_def Compressor_flush_def)

lemma Deflater_call_flushed:
  "d_flushed s \<Longrightarrow> Deflater_call Z s (h, c) = (Inl (Deflater_flushed_error c), s)"
  by (cases c) (simp_all add: Deflater_compress_def Deflater_flush_def)

lemma Compressor_calls_flushed:
  "c_flushed s \<Longrightarrow>
   Compressor_calls Z s cs = (map (\<lambda>(h, c). Inl (Compressor_flushed_error c)) cs, s)"
proof (induction cs)
  case Nil
  show ?case by simp
next
  case (Cons x cs)
  obtain h c where x: "x = (h, c)" by (cases x)
  show ?case using Cons by (simp add: x Compressor_call_flushed del: Compressor_call.simps)
qed

lemma Deflater_calls_flushed:
  "d_flushed s \<Longrightarrow>
   Deflater_calls Z s cs = (map (\<lambda>(h, c). Inl (Deflater_flushed_error c)) cs, s)"
proof (induction cs)
  case Nil
  show ?case by simp
next
  case (Cons x cs)
  obtain h c where x: "x = (h, c)" by (cases x)
  show ?case using Cons by (simp add: x Deflater_call_flushed del: Deflater_call.simps)
qed

lemma Compressor_flush_flushed: "c_flushed (snd (snd (Compressor_flush Z h s)))"
  by (simp add: Compressor_flush_def Let_def split: option.splits)

lemma deflate_part_flushed: "d_flushed (snd (deflate_part Z h s final)) = d_flushed s"
  by (simp add: deflate_part_def Let_def split: option.splits sum.splits prod.splits)

lemma Deflater_flush_flushed: "d_flushed (snd (Deflater_flush Z h s))"
  by (simp add: Deflater_flush_def deflate_part_flushed)

lemma size_sub: "b \<le> a \<Longrightarrow> (of_nat a :: size_t) - of_nat b = of_nat (a - b)"
  by (simp add: of_nat_diff)

lemma size_sub1: "0 < a \<Longrightarrow> (of_nat a :: size_t) - 1 = of_nat (a - 1)"
  using size_sub [of 1 a] by simp

lemma size_add1: "(of_nat a :: size_t) + 1 = of_nat (a + 1)"
  by simp

lemma deflate_part_encodes:
  assumes pend: "d_data s = Some (PyBytes inp)"
    and gb: "host_getbuffer h = None" and al: "host_alloc h = None"
    and enc: "ZopfliDeflatePart Z (d_options s) 2 final inp 0 (length inp) (d_bp s, d_out s)
                = (bp', out')"
    and mono: "length (d_out s) \<le> length out'" and ne: "out' \<noteq> []"
    and bound: "length out' < 2 ^ 63"
  shows "deflate_part Z h s final =
           (Inr (if final = 0
                 then (if length (d_out s) = 0 then bytes_slice 0 (length out' - 1) out'
                       else bytes_slice (length (d_out s) - 1) (length out' - 1) out')
                 else (if length (d_out s) = 0 then bytes_slice 0 (length out') out'
                       else bytes_slice (length (d_out s) - 1) (length out') out')),
            s\<lparr>d_bp := bp', d_out := out', d_data := None\<rparr>)"
proof -
  let ?p = "length (d_out s)" and ?o = "length out'"
  have o63: "?o < 2 ^ 63" by (rule bound)
  have o64: "?o < 2 ^ 64" using bound by simp
  have p64: "?p < 2 ^ 64" using mono o64 by simp
  have opos: "0 < ?o" using ne by simp
  have zero: "(outsize_of (d_out s) = 0) = (?p = 0)"
    by (simp add: outsize_of_def size_eq_0 [OF p64])
  have r1: "PyBytes_FromStringAndSize h (drop (unat (0 :: size_t)) out') (outsize_of out' - 1)
              = Inr (bytes_slice 0 (?o - 1) out')"
    using o63 opos by (simp add: outsize_of_def size_sub1 PyBytes_ok [OF _ al] bytes_slice_def)
  have r2: "PyBytes_FromStringAndSize h (drop (unat (0 :: size_t)) out') (outsize_of out')
              = Inr (bytes_slice 0 ?o out')"
    using o63 by (simp add: outsize_of_def PyBytes_ok [OF _ al] bytes_slice_def)
  have off: "?p \<noteq> 0 \<Longrightarrow> unat (outsize_of (d_out s) - 1) = ?p - 1"
    using p64 by (simp add: outsize_of_def size_sub1 unat_size)
  have r3: "?p \<noteq> 0 \<Longrightarrow>
      PyBytes_FromStringAndSize h (drop (?p - 1) out') (outsize_of out' - outsize_of (d_out s))
        = Inr (bytes_slice (?p - 1) (?o - 1) out')"
  proof -
    assume "?p \<noteq> 0"
    then have eq: "?o - 1 - (?p - 1) = ?o - ?p" using mono by arith
    have lt: "?o - ?p < 2 ^ 63" using o63 by arith
    have sl: "bytes_slice (?p - 1) (?o - 1) out' = take (?o - ?p) (drop (?p - 1) out')"
      by (simp only: bytes_slice_def eq)
    have "PyBytes_FromStringAndSize h (drop (?p - 1) out') (of_nat (?o - ?p))
            = Inr (take (?o - ?p) (drop (?p - 1) out'))"
      by (rule PyBytes_ok [OF lt al])
    then show ?thesis
      by (simp only: outsize_of_def size_sub [OF mono] sl)
  qed
  have r4: "?p \<noteq> 0 \<Longrightarrow>
      PyBytes_FromStringAndSize h (drop (?p - 1) out')
          (outsize_of out' - outsize_of (d_out s) + 1)
        = Inr (bytes_slice (?p - 1) ?o out')"
  proof -
    assume "?p \<noteq> 0"
    then have eq: "?o - (?p - 1) = ?o - ?p + 1" using mono by arith
    have lt: "?o - ?p + 1 < 2 ^ 63" using o63 mono \<open>?p \<noteq> 0\<close> by arith
    have "outsize_of out' - outsize_of (d_out s) + 1 = (of_nat (?o - ?p + 1) :: size_t)"
      by (simp add: outsize_of_def size_sub [OF mono])
    moreover have "bytes_slice (?p - 1) ?o out' = take (?o - ?p + 1) (drop (?p - 1) out')"
      by (simp only: bytes_slice_def eq)
    ultimately show ?thesis
      by (simp only: PyBytes_ok [OF lt al])
  qed
  have dp: "deflate_part Z h s final =
      (let pos = outsize_of (d_out s); outsize = outsize_of out';
           (off, n) =
             (if final = 0 then
                (if pos = 0 then (pos, outsize - 1) else (pos - 1, outsize - pos))
              else
                (if pos = 0 then (pos, outsize) else (pos - 1, outsize - pos + 1)))
       in (PyBytes_FromStringAndSize h (drop (unat off) out') n,
           s\<lparr>d_bp := bp', d_out := out', d_data := None\<rparr>))"
    by (simp add: deflate_part_def pend gb enc Let_def)
  show ?thesis
  proof (cases "?p = 0")
    case True
    then show ?thesis
      unfolding dp using r1 r2 zero by (simp add: Let_def)
  next
    case False
    then show ?thesis
      unfolding dp using r3 r4 zero off by (simp add: Let_def)
  qed
qed

lemma stored_66_nonfinal:
  "ZopfliDeflatePart stored_zopfli (ZopfliInitOptions stored_zopfli) 2 0 [66] 0 (length [66::byte])
     (0, [0, 1, 0, 254, 255, 65]) = (0, [0, 1, 0, 254, 255, 65, 0, 1, 0, 254, 255, 66])"
  by (simp add: stored_zopfli_def stored_block_def stored_bit_def Let_def)

lemma stored_66_final:
  "ZopfliDeflatePart stored_zopfli (ZopfliInitOptions stored_zopfli) 2 1 [66] 0 (length [66::byte])
     (0, [0, 1, 0, 254, 255, 65]) = (0, [0, 1, 0, 254, 255, 65, 1, 1, 0, 254, 255, 66])"
  by (simp add: stored_zopfli_def stored_block_def stored_bit_def Let_def)

lemma Compressor_compress_fails:
  "fst (Compressor_compress h c obj) = Inl e \<Longrightarrow> snd (Compressor_compress h c obj) = c"
  by (simp add: Compressor_compress_def split: if_splits sum.splits)

lemma Compressor_flush_fails:
  "c_flushed (snd (snd (Compressor_flush Z h c)))
   \<and> c_data (snd (snd (Compressor_flush Z h c))) = c_data c
   \<and> (c_flushed c \<longrightarrow> snd (snd (Compressor_flush Z h c)) = c)"
  by (cases c) (simp add: Compressor_flush_def Let_def split: option.splits)

lemma deflate_part_state:
  "snd (deflate_part Z h d final) =
     (case pending_bytes h d of
        None \<Rightarrow> d\<lparr>d_data := None\<rparr>
      | Some inp \<Rightarrow> encoded Z d final inp)"
  by (cases d)
     (simp add: deflate_part_def pending_bytes_def encoded_def Let_def
        split: option.splits sum.splits prod.splits)

lemma Deflater_compress_fails:
  "fst (Deflater_compress Z h d obj) = Inl e \<Longrightarrow>
   snd (Deflater_compress Z h d obj) =
     (if d_flushed d then d
      else case pending_bytes h d of
             None \<Rightarrow> d\<lparr>d_data := None\<rparr>
           | Some inp \<Rightarrow> encoded Z d 0 inp)"
  using deflate_part_state [of Z h d 0]
  by (auto simp add: Deflater_compress_def split: if_splits prod.splits sum.splits)

lemma Deflater_flush_state:
  "snd (Deflater_flush Z h d) =
     (if d_flushed d then d
      else case pending_bytes h d of
             None \<Rightarrow> d\<lparr>d_flushed := True, d_data := None\<rparr>
           | Some inp \<Rightarrow> encoded Z (d\<lparr>d_flushed := True\<rparr>) 1 inp)"
  by (simp add: Deflater_flush_def deflate_part_state pending_bytes_def split: option.splits)

section \<open>Construction\<close>

text \<open>
  C9. Constructing the compressor with a format value that is none of
  \<^verbatim>\<open>ZOPFLI_FORMAT_GZIP\<close>, \<^verbatim>\<open>ZOPFLI_FORMAT_ZLIB\<close>, \<^verbatim>\<open>ZOPFLI_FORMAT_DEFLATE\<close> fails with
  \<^verbatim>\<open>ValueError("unknown format")\<close>, whatever the host does: \<^verbatim>\<open>Compressor_init\<close>
  returns the error and no object results.
\<close>

theorem Compressor_init_unknown_format:
  assumes "ca_format a = Some f" and "c_int f"
    and "f \<noteq> ZOPFLI_FORMAT_GZIP Z" and "f \<noteq> ZOPFLI_FORMAT_ZLIB Z"
    and "f \<noteq> ZOPFLI_FORMAT_DEFLATE Z"
    and "arg_ok (ca_iterations a)" and "arg_ok (ca_block_splitting a)"
    and "arg_ok (ca_block_splitting_max a)"
  shows "Compressor_init Z h a = Inl (ValueError ''unknown format'')"
  using assms by (simp add: Compressor_init_def Compressor_parse_def parse_i_ok Let_def)

theorem Compressor_init_unknown_format_witness:
  "Compressor_init stored_zopfli host_ok (no_cargs\<lparr>ca_format := Some 5\<rparr>)
     = Inl (ValueError ''unknown format'')"
  by (rule Compressor_init_unknown_format [where f = 5])
     (simp_all add: no_cargs_def stored_zopfli_def c_int_def INT_MIN_def INT_MAX_def)

text \<open>
  C10. Constructing the deflater with \<^verbatim>\<open>block_splitting\<close> equal to 2 stores
  \<^verbatim>\<open>blocksplitting = 1\<close> and \<^verbatim>\<open>blocksplittinglast = 1\<close>; every other value, negative
  values and values above 3 included, is stored as it was given, with
  \<^verbatim>\<open>blocksplittinglast\<close> as \<^verbatim>\<open>ZopfliInitOptions\<close> left it.
\<close>

theorem Deflater_init_blocksplitting:
  assumes "Deflater_args_ok a" and "da_block_splitting a = Some bs" and "host_lock h = None"
  shows "\<exists>s. Deflater_init Z h a = Inr s \<and>
           (if bs = 2
            then blocksplitting (d_options s) = 1 \<and> blocksplittinglast (d_options s) = 1
            else blocksplitting (d_options s) = bs \<and>
                 blocksplittinglast (d_options s) = blocksplittinglast (ZopfliInitOptions Z))"
  using assms by (simp add: Deflater_init_ok Let_def)

theorem Deflater_init_blocksplitting_witness:
  "\<exists>s. Deflater_init stored_zopfli host_ok (no_args\<lparr>da_block_splitting := Some 2\<rparr>) = Inr s \<and>
       (if (2::int) = 2
        then blocksplitting (d_options s) = 1 \<and> blocksplittinglast (d_options s) = 1
        else blocksplitting (d_options s) = 2 \<and>
             blocksplittinglast (d_options s) = blocksplittinglast (ZopfliInitOptions stored_zopfli))"
  by (rule Deflater_init_blocksplitting)
     (simp_all add: Deflater_args_ok_def no_args_def host_ok_def c_int_def INT_MIN_def INT_MAX_def)

text \<open>
  C4, as the code has it. Construction with a \<^verbatim>\<open>block_splitting\<close> value below 0 or
  above 3 does not fail for either type. The compressor stores 1 in its place; the
  deflater stores the value as it was given.
\<close>

theorem blocksplitting_out_of_range:
  assumes "bs < 0 \<or> 3 < bs"
    and "Compressor_args_ok ca" and "ca_block_splitting ca = Some bs"
    and "ca_format ca = None \<or> ca_format ca = Some (ZOPFLI_FORMAT_GZIP Z)
         \<or> ca_format ca = Some (ZOPFLI_FORMAT_ZLIB Z)
         \<or> ca_format ca = Some (ZOPFLI_FORMAT_DEFLATE Z)"
    and "host_import h = None" and "host_call h = None" and "host_lock h = None"
    and "Deflater_args_ok da" and "da_block_splitting da = Some bs"
  shows "(\<exists>s. Compressor_init Z h ca = Inr s \<and> blocksplitting (c_options s) = 1) \<and>
         (\<exists>s. Deflater_init Z h da = Inr s \<and> blocksplitting (d_options s) = bs)"
proof
  have "(case ca_format ca of None \<Rightarrow> ZOPFLI_FORMAT_DEFLATE Z | Some v \<Rightarrow> v)
          \<in> {ZOPFLI_FORMAT_GZIP Z, ZOPFLI_FORMAT_ZLIB Z, ZOPFLI_FORMAT_DEFLATE Z}"
    using assms(4) by auto
  then show "\<exists>s. Compressor_init Z h ca = Inr s \<and> blocksplitting (c_options s) = 1"
    using assms(1,2,3,5,6,7) by (simp add: Compressor_init_ok [OF _ _ _ _ refl] Let_def)
next
  have "bs \<noteq> 2" using assms(1) by auto
  then show "\<exists>s. Deflater_init Z h da = Inr s \<and> blocksplitting (d_options s) = bs"
    using assms(8,9,7) by (simp add: Deflater_init_ok Let_def)
qed

theorem blocksplitting_out_of_range_witness:
  "(\<exists>s. Compressor_init stored_zopfli host_ok (no_cargs\<lparr>ca_block_splitting := Some 7\<rparr>) = Inr s
        \<and> blocksplitting (c_options s) = 1) \<and>
   (\<exists>s. Deflater_init stored_zopfli host_ok (no_args\<lparr>da_block_splitting := Some 7\<rparr>) = Inr s
        \<and> blocksplitting (d_options s) = 7)"
  by (rule blocksplitting_out_of_range)
     (simp_all add: Compressor_args_ok_def Deflater_args_ok_def no_args_def no_cargs_def
        host_ok_def c_int_def INT_MIN_def INT_MAX_def)

text \<open>
  C4 as stated fails for the deflater: constructed with \<^verbatim>\<open>block_splitting = 7\<close> it
  stores 7, not 1.
\<close>

theorem Deflater_init_out_of_range_counterexample:
  "Deflater_init stored_zopfli host_ok (no_args\<lparr>da_block_splitting := Some 7\<rparr>)
     = Inr \<lparr>d_options = \<lparr>verbose = 0, numiterations = 15, blocksplitting = 7,
                          blocksplittinglast = 0, blocksplittingmax = 15\<rparr>,
            d_bp = 0, d_out = [], d_data = None, d_flushed = False\<rparr>"
  by (simp add: Deflater_init_def Deflater_parse_def no_args_def host_ok_def stored_zopfli_def
        c_int_def INT_MIN_def INT_MAX_def)

text \<open>
  C5, as the code has it. Constructing the deflater with \<^verbatim>\<open>block_splitting\<close> equal
  to 3 stores the options as supplied: \<^verbatim>\<open>blocksplitting = 3\<close>, and
  \<^verbatim>\<open>blocksplittinglast\<close> as \<^verbatim>\<open>ZopfliInitOptions\<close> left it. The value that
  \<^verbatim>\<open>Deflater_init\<close> rewrites is 2.
\<close>

theorem Deflater_init_mode3:
  assumes "Deflater_args_ok a" and "da_block_splitting a = Some 3" and "host_lock h = None"
  shows "\<exists>s. Deflater_init Z h a = Inr s \<and> blocksplitting (d_options s) = 3 \<and>
           blocksplittinglast (d_options s) = blocksplittinglast (ZopfliInitOptions Z)"
  using assms by (simp add: Deflater_init_ok Let_def)

theorem Deflater_init_mode3_witness:
  "\<exists>s. Deflater_init stored_zopfli host_ok (no_args\<lparr>da_block_splitting := Some 3\<rparr>) = Inr s \<and>
       blocksplitting (d_options s) = 3 \<and>
       blocksplittinglast (d_options s) = blocksplittinglast (ZopfliInitOptions stored_zopfli)"
  by (rule Deflater_init_mode3)
     (simp_all add: Deflater_args_ok_def no_args_def host_ok_def c_int_def INT_MIN_def INT_MAX_def)

text \<open>
  C5 as stated fails: with \<^verbatim>\<open>block_splitting = 3\<close> the stored options are the defaults
  with \<^verbatim>\<open>blocksplitting\<close> set to 3, nothing else.
\<close>

theorem Deflater_init_mode3_counterexample:
  "Deflater_init stored_zopfli host_ok (no_args\<lparr>da_block_splitting := Some 3\<rparr>)
     = Inr \<lparr>d_options = (ZopfliInitOptions stored_zopfli)\<lparr>blocksplitting := 3\<rparr>,
            d_bp = 0, d_out = [], d_data = None, d_flushed = False\<rparr>"
  by (simp add: Deflater_init_def Deflater_parse_def no_args_def host_ok_def stored_zopfli_def
        c_int_def INT_MIN_def INT_MAX_def)

section \<open>Behaviour of the methods\<close>

text \<open>
  C7. On a flushed object of either type every later call fails, any number of times:
  \<^verbatim>\<open>compress\<close> with the \<^verbatim>\<open>ValueError\<close> "... has been flushed", \<^verbatim>\<open>flush\<close> with
  the \<^verbatim>\<open>ValueError\<close> "repeated call to flush()"; the object stays as it was, flushed.
  And every call of \<^verbatim>\<open>flush\<close>, whatever it returns, leaves the object flushed.
\<close>

theorem flushed_calls_fail:
  assumes "c_flushed s" and "d_flushed d"
  shows "Compressor_calls Z s cs = (map (\<lambda>(h, c). Inl (Compressor_flushed_error c)) cs, s)
       \<and> Deflater_calls Z d ds = (map (\<lambda>(h, c). Inl (Deflater_flushed_error c)) ds, d)
       \<and> c_flushed (snd (snd (Compressor_flush Z h0 s0)))
       \<and> d_flushed (snd (Deflater_flush Z h0 d0))"
  using assms
  by (simp add: Compressor_calls_flushed Deflater_calls_flushed Compressor_flush_flushed
        Deflater_flush_flushed)

theorem flushed_calls_fail_witness:
  "Compressor_calls stored_zopfli flushed_compressor
      [(host_ok, Append (PyBytes [66])), (host_ok, Finalize), (host_ok, Finalize)]
     = ([Inl (ValueError ''Compressor has been flushed''),
         Inl (ValueError ''repeated call to flush()''),
         Inl (ValueError ''repeated call to flush()'')], flushed_compressor)
   \<and> Deflater_calls stored_zopfli flushed_deflater
      [(host_ok, Finalize), (host_ok, Append (PyBytes [66])), (host_ok, Append PyOther)]
     = ([Inl (ValueError ''repeated call to flush()''),
         Inl (ValueError ''Deflater has been flushed''),
         Inl (ValueError ''Deflater has been flushed'')], flushed_deflater)"
proof -
  have c: "c_flushed flushed_compressor"
    by (simp add: flushed_compressor_def Compressor_flush_def host_ok_def Let_def)
  have d: "d_flushed flushed_deflater"
    by (simp add: flushed_deflater_def Deflater_flush_def deflate_part_def fresh_deflater_def)
  show ?thesis
    using flushed_calls_fail [OF c d, of stored_zopfli
        "[(host_ok, Append (PyBytes [66])), (host_ok, Finalize), (host_ok, Finalize)]"
        "[(host_ok, Finalize), (host_ok, Append (PyBytes [66])), (host_ok, Append PyOther)]"]
    by simp
qed

text \<open>
  C8. On a deflater that is not flushed and holds no pending chunk, \<^verbatim>\<open>compress\<close>
  returns the empty byte string and records the object given as the pending chunk, and
  \<^verbatim>\<open>flush\<close> returns the empty byte string.
\<close>

theorem Deflater_no_pending:
  assumes "\<not> d_flushed s" and "d_data s = None"
  shows "Deflater_compress Z h s obj = (Inr [], s\<lparr>d_data := Some obj\<rparr>)
       \<and> Deflater_flush Z h s = (Inr [], s\<lparr>d_flushed := True\<rparr>)"
  using assms by (simp add: Deflater_compress_def Deflater_flush_def deflate_part_def)

theorem Deflater_no_pending_witness:
  "Deflater_compress stored_zopfli host_ok fresh_deflater (PyBytes [65])
     = (Inr [], fresh_deflater\<lparr>d_data := Some (PyBytes [65])\<rparr>)
   \<and> Deflater_flush stored_zopfli host_ok fresh_deflater
     = (Inr [], fresh_deflater\<lparr>d_flushed := True\<rparr>)"
  by (rule Deflater_no_pending) (simp_all add: fresh_deflater_def)

text \<open>
  C3, as the code has it. With \<^verbatim>\<open>blocksplitting = 3\<close>, \<^verbatim>\<open>flush\<close> calls
  \<^verbatim>\<open>ZopfliCompress\<close> exactly twice on the whole accumulated buffer, first with
  \<^verbatim>\<open>blocksplitting = 1, blocksplittinglast = 0\<close>, then with \<^verbatim>\<open>blocksplittinglast = 1\<close>,
  and returns the first result when it is strictly shorter, otherwise the second: when
  both have the same length, the second result is the one returned.
\<close>

theorem Compressor_flush_try_both:
  assumes "\<not> c_flushed s" and "blocksplitting (c_options s) = 3"
    and "host_call h = None" and "host_getbuffer h = None" and "host_alloc h = None"
    and "o1 = (c_options s)\<lparr>blocksplitting := 1, blocksplittinglast := 0\<rparr>"
    and "o2 = (c_options s)\<lparr>blocksplitting := 1, blocksplittinglast := 1\<rparr>"
    and "r1 = ZopfliCompress Z o1 (c_format s) (c_data s)"
    and "r2 = ZopfliCompress Z o2 (c_format s) (c_data s)"
    and "length r1 < 2 ^ 63" and "length r2 < 2 ^ 63"
  shows "Compressor_flush Z h s =
           (Inr (if length r1 < length r2 then r1 else r2),
            [(o1, c_format s, c_data s), (o2, c_format s, c_data s)],
            s\<lparr>c_options := o2, c_flushed := True\<rparr>)"
  using assms
  by (simp add: Compressor_flush_def Let_def outsize_of_def size_less PyBytes_ok)

theorem Compressor_flush_try_both_witness:
  "Compressor_flush marking_zopfli host_ok try_both_compressor =
     (Inr [1, 7],
      [((ZopfliInitOptions stored_zopfli)\<lparr>blocksplitting := 1, blocksplittinglast := 0\<rparr>, 2, [7]),
       ((ZopfliInitOptions stored_zopfli)\<lparr>blocksplitting := 1, blocksplittinglast := 1\<rparr>, 2, [7])],
      try_both_compressor\<lparr>c_options := (ZopfliInitOptions stored_zopfli)\<lparr>blocksplitting := 1, blocksplittinglast := 1\<rparr>,
         c_flushed := True\<rparr>)"
  using Compressor_flush_try_both [of try_both_compressor host_ok _ _ _ marking_zopfli, OF _ _ _ _ _ refl refl refl refl]
  by (simp add: try_both_compressor_def host_ok_def marking_zopfli_def stored_zopfli_def)

text \<open>
  C3 as stated fails on ties: the two results \<open>[0, 7]\<close> and \<open>[1, 7]\<close> have the same
  length and \<^verbatim>\<open>flush\<close> returns the second one.
\<close>

theorem Compressor_flush_tie_counterexample:
  "fst (Compressor_flush marking_zopfli host_ok try_both_compressor) = Inr [1, 7]
   \<and> ZopfliCompress marking_zopfli
        ((c_options try_both_compressor)\<lparr>blocksplitting := 1, blocksplittinglast := 0\<rparr>)
        (c_format try_both_compressor) (c_data try_both_compressor) = [0, 7]
   \<and> ZopfliCompress marking_zopfli
        ((c_options try_both_compressor)\<lparr>blocksplitting := 1, blocksplittinglast := 1\<rparr>)
        (c_format try_both_compressor) (c_data try_both_compressor) = [1, 7]"
  by (simp add: Compressor_flush_def Let_def try_both_compressor_def host_ok_def
        marking_zopfli_def stored_zopfli_def outsize_of_def PyBytes_FromStringAndSize_def)

text \<open>
  C1, as the code has it. A call of the deflater that encodes a pending chunk, with
  \<open>pos\<close> the length of the output buffer before \<^verbatim>\<open>ZopfliDeflatePart\<close> runs and
  \<^verbatim>\<open>outsize\<close> its length after: \<^verbatim>\<open>compress\<close> (not final) returns
  \<open>buffer[0 .. outsize-1)\<close> when \<open>pos = 0\<close> and \<open>buffer[pos-1 .. outsize-1)\<close> when
  \<open>pos > 0\<close>, so the last byte is held back in both cases; \<^verbatim>\<open>flush\<close> (final) returns
  \<open>buffer[0 .. outsize)\<close> when \<open>pos = 0\<close> and \<open>buffer[pos-1 .. outsize)\<close> when
  \<open>pos > 0\<close>.
\<close>

theorem deflate_part_slices:
  assumes "\<not> d_flushed s" and "d_data s = Some (PyBytes inp)"
    and "host_getbuffer h = None" and "host_alloc h = None"
    and "pos = length (d_out s)"
    and "ZopfliDeflatePart Z (d_options s) 2 0 inp 0 (length inp) (d_bp s, d_out s) = (bp0, out0)"
    and "pos \<le> length out0" and "out0 \<noteq> []" and "length out0 < 2 ^ 63"
    and "ZopfliDeflatePart Z (d_options s) 2 1 inp 0 (length inp) (d_bp s, d_out s) = (bp1, out1)"
    and "pos \<le> length out1" and "out1 \<noteq> []" and "length out1 < 2 ^ 63"
  shows "Deflater_compress Z h s obj =
           (Inr (if pos = 0 then bytes_slice 0 (length out0 - 1) out0
                 else bytes_slice (pos - 1) (length out0 - 1) out0),
            s\<lparr>d_bp := bp0, d_out := out0, d_data := Some obj\<rparr>)
       \<and> Deflater_flush Z h s =
           (Inr (if pos = 0 then bytes_slice 0 (length out1) out1
                 else bytes_slice (pos - 1) (length out1) out1),
            s\<lparr>d_bp := bp1, d_out := out1, d_data := None, d_flushed := True\<rparr>)"
proof
  have "deflate_part Z h s 0 =
          (Inr (if pos = 0 then bytes_slice 0 (length out0 - 1) out0
                else bytes_slice (pos - 1) (length out0 - 1) out0),
           s\<lparr>d_bp := bp0, d_out := out0, d_data := None\<rparr>)"
    using deflate_part_encodes [of s inp h Z 0 bp0 out0] assms by simp
  then show "Deflater_compress Z h s obj =
           (Inr (if pos = 0 then bytes_slice 0 (length out0 - 1) out0
                 else bytes_slice (pos - 1) (length out0 - 1) out0),
            s\<lparr>d_bp := bp0, d_out := out0, d_data := Some obj\<rparr>)"
    using assms(1) by (simp add: Deflater_compress_def)
next
  let ?s = "s\<lparr>d_flushed := True\<rparr>"
  have "deflate_part Z h ?s 1 =
          (Inr (if pos = 0 then bytes_slice 0 (length out1) out1
                else bytes_slice (pos - 1) (length out1) out1),
           ?s\<lparr>d_bp := bp1, d_out := out1, d_data := None\<rparr>)"
    using deflate_part_encodes [of ?s inp h Z 1 bp1 out1] assms by simp
  then show "Deflater_flush Z h s =
           (Inr (if pos = 0 then bytes_slice 0 (length out1) out1
                 else bytes_slice (pos - 1) (length out1) out1),
            s\<lparr>d_bp := bp1, d_out := out1, d_data := None, d_flushed := True\<rparr>)"
    using assms(1) by (simp add: Deflater_flush_def)
qed

theorem deflate_part_slices_witness:
  "Deflater_compress stored_zopfli host_ok one_block_deflater (PyBytes [67]) =
     (Inr [65, 0, 1, 0, 254, 255],
      one_block_deflater\<lparr>d_bp := 0, d_out := [0, 1, 0, 254, 255, 65, 0, 1, 0, 254, 255, 66],
                          d_data := Some (PyBytes [67])\<rparr>)
   \<and> Deflater_flush stored_zopfli host_ok one_block_deflater =
     (Inr [65, 1, 1, 0, 254, 255, 66],
      one_block_deflater\<lparr>d_bp := 0, d_out := [0, 1, 0, 254, 255, 65, 1, 1, 0, 254, 255, 66],
                          d_data := None, d_flushed := True\<rparr>)"
  using deflate_part_slices [of one_block_deflater "[66]" host_ok 6 stored_zopfli
      0 "[0, 1, 0, 254, 255, 65, 0, 1, 0, 254, 255, 66]"
      0 "[0, 1, 0, 254, 255, 65, 1, 1, 0, 254, 255, 66]" "PyBytes [67]"]
    stored_66_nonfinal stored_66_final
  by (simp add: one_block_deflater_def host_ok_def bytes_slice_def)

text \<open>
  C1 as stated fails for \<^verbatim>\<open>compress\<close> with \<open>pos > 0\<close>. After the chunks \<open>[65]\<close> and
  \<open>[66]\<close> the buffer holds 6 bytes; the next \<^verbatim>\<open>compress\<close> grows it to 12 and returns
  the 6 bytes \<open>buffer[5 .. 11)\<close>, not the 7 bytes \<open>buffer[5 .. 12)\<close>.
\<close>

theorem deflate_part_nonfinal_counterexample:
  "Deflater_appends stored_zopfli host_ok fresh_deflater [[65], [66]]
     = Inr ([[], [0, 1, 0, 254, 255]], one_block_deflater)
   \<and> Deflater_compress stored_zopfli host_ok one_block_deflater (PyBytes [67]) =
     (Inr [65, 0, 1, 0, 254, 255],
      one_block_deflater\<lparr>d_out := [0, 1, 0, 254, 255, 65, 0, 1, 0, 254, 255, 66],
                          d_data := Some (PyBytes [67])\<rparr>)
   \<and> bytes_slice (6 - 1) 12 [0, 1, 0, 254, 255, 65, 0, 1, 0, 254, 255, 66 :: byte]
     = [65, 0, 1, 0, 254, 255, 66]"
  by (simp add: Deflater_compress_def deflate_part_def fresh_deflater_def one_block_deflater_def
        host_ok_def stored_zopfli_def stored_block_def stored_bit_def Let_def outsize_of_def
        PyBytes_FromStringAndSize_def bytes_slice_def)

text \<open>
  C6, as the code has it. A failing call returns its exception to the caller of that
  call. A call that fails because the object is already flushed leaves it unchanged,
  and so does every failing \<^verbatim>\<open>compress\<close> of the compressor. A failing \<^verbatim>\<open>flush\<close> of an
  object not yet flushed leaves it flushed on every failure path, before the encoding
  as well as after it; the compressor's accumulated data stays as it was. A failing
  call of a deflater not yet flushed releases the pending chunk; when the chunk's
  buffer could not be obtained the output buffer and the bit pointer are unchanged,
  otherwise they are as the encoder left them.
\<close>

theorem failing_calls:
  "(fst (Compressor_compress h c obj) = Inl e \<longrightarrow> snd (Compressor_compress h c obj) = c)
   \<and> (fst (Compressor_flush Z h c) = Inl e \<longrightarrow>
        c_flushed (snd (snd (Compressor_flush Z h c)))
        \<and> c_data (snd (snd (Compressor_flush Z h c))) = c_data c
        \<and> (c_flushed c \<longrightarrow> snd (snd (Compressor_flush Z h c)) = c))
   \<and> (fst (Deflater_compress Z h d obj) = Inl e \<longrightarrow>
        snd (Deflater_compress Z h d obj) =
          (if d_flushed d then d
           else case pending_bytes h d of
                  None \<Rightarrow> d\<lparr>d_data := None\<rparr>
                | Some inp \<Rightarrow> encoded Z d 0 inp))
   \<and> (fst (Deflater_flush Z h d) = Inl e \<longrightarrow>
        snd (Deflater_flush Z h d) =
          (if d_flushed d then d
           else case pending_bytes h d of
                  None \<Rightarrow> d\<lparr>d_flushed := True, d_data := None\<rparr>
                | Some inp \<Rightarrow> encoded Z (d\<lparr>d_flushed := True\<rparr>) 1 inp))"
  using Compressor_compress_fails [of h c obj e] Compressor_flush_fails [of Z h c]
    Deflater_compress_fails [of Z h d obj e] Deflater_flush_state [of Z h d]
  by blast

theorem failing_calls_witness:
  "fst (Compressor_compress host_ok fresh_compressor PyOther) = Inl TypeError
   \<and> snd (Compressor_compress host_ok fresh_compressor PyOther) = fresh_compressor
   \<and> fst (Compressor_flush stored_zopfli no_memory fresh_compressor) = Inl MemoryError
   \<and> snd (snd (Compressor_flush stored_zopfli no_memory fresh_compressor))
       = fresh_compressor\<lparr>c_flushed := True\<rparr>
   \<and> fst (Deflater_compress stored_zopfli no_memory one_block_deflater (PyBytes [67]))
       = Inl MemoryError
   \<and> snd (Deflater_compress stored_zopfli no_memory one_block_deflater (PyBytes [67]))
       = one_block_deflater\<lparr>d_out := [0, 1, 0, 254, 255, 65, 0, 1, 0, 254, 255, 66],
                              d_data := None\<rparr>
   \<and> fst (Deflater_flush stored_zopfli host_ok (fresh_deflater\<lparr>d_data := Some PyOther\<rparr>))
       = Inl TypeError
   \<and> snd (Deflater_flush stored_zopfli host_ok (fresh_deflater\<lparr>d_data := Some PyOther\<rparr>))
       = fresh_deflater\<lparr>d_flushed := True\<rparr>"
proof -
  have a: "fst (Compressor_compress host_ok fresh_compressor PyOther) = Inl TypeError"
    by (simp add: Compressor_compress_def fresh_compressor_def)
  have b: "fst (Compressor_flush stored_zopfli no_memory fresh_compressor) = Inl MemoryError"
    by (simp add: Compressor_flush_def fresh_compressor_def no_memory_def host_ok_def
          stored_zopfli_def stored_block_def stored_bit_def Let_def outsize_of_def
          PyBytes_FromStringAndSize_def)
  have c: "fst (Deflater_compress stored_zopfli no_memory one_block_deflater (PyBytes [67]))
             = Inl MemoryError"
    by (simp add: Deflater_compress_def deflate_part_def one_block_deflater_def no_memory_def
          host_ok_def stored_zopfli_def stored_block_def stored_bit_def Let_def outsize_of_def
          PyBytes_FromStringAndSize_def)
  have d: "fst (Deflater_flush stored_zopfli host_ok (fresh_deflater\<lparr>d_data := Some PyOther\<rparr>))
             = Inl TypeError"
    by (simp add: Deflater_flush_def deflate_part_def fresh_deflater_def)
  have pb: "pending_bytes no_memory one_block_deflater = Some [66]"
    by (simp add: pending_bytes_def one_block_deflater_def no_memory_def host_ok_def)
  have en: "encoded stored_zopfli one_block_deflater 0 [66]
              = one_block_deflater\<lparr>d_out := [0, 1, 0, 254, 255, 65, 0, 1, 0, 254, 255, 66],
                                    d_data := None\<rparr>"
    using stored_66_nonfinal by (simp add: encoded_def one_block_deflater_def)
  have bs: "snd (snd (Compressor_flush stored_zopfli no_memory fresh_compressor))
              = fresh_compressor\<lparr>c_flushed := True\<rparr>"
    by (simp add: Compressor_flush_def fresh_compressor_def no_memory_def host_ok_def
          stored_zopfli_def Let_def)
  show ?thesis
    using failing_calls [where h = host_ok and c = fresh_compressor and obj = PyOther
          and e = TypeError]
      failing_calls [where h = no_memory and c = fresh_compressor and e = MemoryError
          and Z = stored_zopfli and d = one_block_deflater and obj = "PyBytes [67]"]
      failing_calls [where h = host_ok and e = TypeError and Z = stored_zopfli
          and d = "fresh_deflater\<lparr>d_data := Some PyOther\<rparr>"]
      a b c d pb en bs
    by (simp add: fresh_deflater_def pending_bytes_def one_block_deflater_def)
qed

text \<open>
  C6 as stated fails twice. A deflater holding a pending object without a buffer
  (recorded by a successful \<^verbatim>\<open>compress\<close>) fails in \<^verbatim>\<open>flush\<close> with \<^verbatim>\<open>TypeError\<close>
  before anything is encoded, and is flushed afterwards. A \<^verbatim>\<open>compress\<close> whose result
  cannot be allocated fails after the encoder has run, and the output buffer keeps
  the 6 bytes the encoder added.
\<close>

theorem failing_calls_counterexample:
  "Deflater_compress stored_zopfli host_ok fresh_deflater PyOther
     = (Inr [], fresh_deflater\<lparr>d_data := Some PyOther\<rparr>)
   \<and> Deflater_flush stored_zopfli host_ok (fresh_deflater\<lparr>d_data := Some PyOther\<rparr>)
     = (Inl TypeError, fresh_deflater\<lparr>d_flushed := True\<rparr>)
   \<and> Deflater_compress stored_zopfli no_memory one_block_deflater (PyBytes [67])
     = (Inl MemoryError,
        one_block_deflater\<lparr>d_out := [0, 1, 0, 254, 255, 65, 0, 1, 0, 254, 255, 66],
                            d_data := None\<rparr>)"
  by (simp add: Deflater_compress_def Deflater_flush_def deflate_part_def fresh_deflater_def
        one_block_deflater_def no_memory_def host_ok_def stored_zopfli_def stored_block_def
        stored_bit_def Let_def outsize_of_def PyBytes_FromStringAndSize_def)

end
